theory Spec2Isabelle
  imports Main
begin

section \<open>Path strings (the POSIX flavour of os.path)\<close>

text \<open>
  The tool is a single Python script, \<^verbatim>\<open>main.py\<close>, that scaffolds a TypeScript project.
  Paths are Python strings; they are modelled as \<^typ>\<open>string\<close>, and the functions of
  \<^verbatim>\<open>os.path\<close> the script calls are the ones of \<^verbatim>\<open>posixpath\<close>.
\<close>

abbreviation sep :: char where
  "sep \<equiv> CHR ''/''"

text \<open>\<^verbatim>\<open>os.path.isabs(s)\<close>: \<^verbatim>\<open>s.startswith('/')\<close>.\<close>

definition isabs :: "string \<Rightarrow> bool" where
  "isabs s = (case s of [] \<Rightarrow> False | c # _ \<Rightarrow> c = sep)"

text \<open>
  \<^verbatim>\<open>os.path.join(a, b)\<close> with one component \<^verbatim>\<open>b\<close>: an absolute \<^verbatim>\<open>b\<close> replaces
  \<^verbatim>\<open>a\<close>; otherwise \<^verbatim>\<open>b\<close> is appended, after a separator unless \<^verbatim>\<open>a\<close> is empty or
  already ends in one.
\<close>

definition join :: "string \<Rightarrow> string \<Rightarrow> string" where
  "join a b =
     (if isabs b then b
      else if a = [] \<or> last a = sep then a @ b
      else a @ [sep] @ b)"

text \<open>\<^verbatim>\<open>os.path.basename(p)\<close>: \<^verbatim>\<open>p[p.rfind('/') + 1:]\<close>.\<close>

definition basename :: "string \<Rightarrow> string" where
  "basename p = rev (takeWhile (\<lambda>c. c \<noteq> sep) (rev p))"

text \<open>
  \<^verbatim>\<open>os.path.split(p)\<close>: head is everything up to and including the last separator,
  with trailing separators stripped unless it consists of separators only; tail is
  the rest.
\<close>

definition rstrip_sep :: "string \<Rightarrow> string" where
  "rstrip_sep s = rev (dropWhile (\<lambda>c. c = sep) (rev s))"

definition split_path :: "string \<Rightarrow> string \<times> string" where
  "split_path p =
     (let head = rev (dropWhile (\<lambda>c. c \<noteq> sep) (rev p));
          tail = basename p
      in (if head \<noteq> [] \<and> \<not> list_all (\<lambda>c. c = sep) head then rstrip_sep head else head, tail))"

section \<open>The file system\<close>

text \<open>
  A file system maps the component list of an absolute path to a node; the root (the
  empty list) is always a directory. There are no links, so every node has one name.
  File content is the text written to it.
\<close>

datatype node = File string | Dir

type_synonym fs = "string list \<Rightarrow> node option"

text \<open>The subclasses of \<^verbatim>\<open>OSError\<close> that the modelled system calls raise.\<close>

datatype error = FileNotFoundError | NotADirectoryError | IsADirectoryError | FileExistsError

record world =
  files :: fs
  cwd :: string
  stdout :: "string list"

type_synonym 'a io = "world \<Rightarrow> (error + 'a) \<times> world"

definition node_at :: "fs \<Rightarrow> string list \<Rightarrow> node option" where
  "node_at f k = (if k = [] then Some Dir else f k)"

text \<open>\<^verbatim>\<open>s.split('/')\<close>.\<close>

fun splitc :: "string \<Rightarrow> string list" where
  "splitc [] = [[]]"
| "splitc (c # cs) =
     (if c = sep then [] # splitc cs
      else (case splitc cs of [] \<Rightarrow> [[c]] | x # xs \<Rightarrow> (c # x) # xs))"

definition components :: "string \<Rightarrow> string list" where
  "components p = filter (\<lambda>c. c \<noteq> []) (splitc p)"

text \<open>
  Path resolution walks the components from a directory: every component is looked up
  in a directory that exists; \<^verbatim>\<open>.\<close> stays, \<^verbatim>\<open>..\<close> goes to the parent. The node
  the walk ends at need not exist.
\<close>

fun walk :: "fs \<Rightarrow> string list \<Rightarrow> string list \<Rightarrow> error + string list" where
  "walk f cur [] = Inr cur"
| "walk f cur (c # cs) =
     (case node_at f cur of
        None \<Rightarrow> Inl FileNotFoundError
      | Some (File _) \<Rightarrow> Inl NotADirectoryError
      | Some Dir \<Rightarrow>
          walk f (if c = ''.'' then cur else if c = ''..'' then butlast cur else cur @ [c]) cs)"

definition absolute :: "world \<Rightarrow> string \<Rightarrow> string" where
  "absolute w p = (if isabs p then p else cwd w @ [sep] @ p)"

definition resolve :: "world \<Rightarrow> string \<Rightarrow> error + string list" where
  "resolve w p =
     (if p = [] then Inl FileNotFoundError
      else walk (files w) [] (components (absolute w p)))"

definition trailing_sep :: "string \<Rightarrow> bool" where
  "trailing_sep p = (p \<noteq> [] \<and> last p = sep)"

text \<open>\<^verbatim>\<open>os.stat\<close>: a path with a trailing separator names a directory or nothing.\<close>

definition stat :: "world \<Rightarrow> string \<Rightarrow> error + node" where
  "stat w p =
     (case resolve w p of
        Inl e \<Rightarrow> Inl e
      | Inr k \<Rightarrow>
          (case node_at (files w) k of
             None \<Rightarrow> Inl FileNotFoundError
           | Some Dir \<Rightarrow> Inr Dir
           | Some (File c) \<Rightarrow> if trailing_sep p then Inl NotADirectoryError else Inr (File c)))"

text \<open>\<^verbatim>\<open>os.path.exists\<close> and \<^verbatim>\<open>os.path.isfile\<close>: \<^verbatim>\<open>os.stat\<close> with every error read as False.\<close>

definition exists_path :: "world \<Rightarrow> string \<Rightarrow> bool" where
  "exists_path w p = (case stat w p of Inl _ \<Rightarrow> False | Inr _ \<Rightarrow> True)"

definition isfile :: "world \<Rightarrow> string \<Rightarrow> bool" where
  "isfile w p = (case stat w p of Inr (File _) \<Rightarrow> True | _ \<Rightarrow> False)"

text \<open>What a reader finds at a path: the content of the regular file there, if any.\<close>

definition read_file :: "world \<Rightarrow> string \<Rightarrow> string option" where
  "read_file w p = (case stat w p of Inr (File c) \<Rightarrow> Some c | _ \<Rightarrow> None)"

definition isdir :: "world \<Rightarrow> string \<Rightarrow> bool" where
  "isdir w p = (case stat w p of Inr Dir \<Rightarrow> True | _ \<Rightarrow> False)"

subsection \<open>Effects\<close>

definition return :: "'a \<Rightarrow> 'a io" where
  "return x w = (Inr x, w)"

definition bind :: "'a io \<Rightarrow> ('a \<Rightarrow> 'b io) \<Rightarrow> 'b io" where
  "bind m g w = (case m w of (Inl e, w') \<Rightarrow> (Inl e, w') | (Inr x, w') \<Rightarrow> g x w')"

text \<open>\<^verbatim>\<open>os.mkdir\<close>.\<close>

definition mkdir :: "string \<Rightarrow> unit io" where
  "mkdir p w =
     (case resolve w p of
        Inl e \<Rightarrow> (Inl e, w)
      | Inr k \<Rightarrow>
          (case node_at (files w) k of
             Some _ \<Rightarrow> (Inl FileExistsError, w)
           | None \<Rightarrow> (Inr (), w\<lparr>files := (files w)(k \<mapsto> Dir)\<rparr>)))"

text \<open>
  \<^verbatim>\<open>open(p, "w")\<close>: creates or truncates the regular file and returns a handle, here
  the node's key.
\<close>

definition open_w :: "string \<Rightarrow> (string list) io" where
  "open_w p w =
     (case resolve w p of
        Inl e \<Rightarrow> (Inl e, w)
      | Inr k \<Rightarrow>
          if trailing_sep p then (Inl IsADirectoryError, w)
          else (case node_at (files w) k of
                  Some Dir \<Rightarrow> (Inl IsADirectoryError, w)
                | _ \<Rightarrow> (Inr k, w\<lparr>files := (files w)(k \<mapsto> File [])\<rparr>)))"

text \<open>\<^verbatim>\<open>f.write(s)\<close> on a handle: appends to the file.\<close>

definition f_write :: "string list \<Rightarrow> string \<Rightarrow> unit io" where
  "f_write k s w =
     (case files w k of
        Some (File c) \<Rightarrow> (Inr (), w\<lparr>files := (files w)(k \<mapsto> File (c @ s))\<rparr>)
      | _ \<Rightarrow> (Inr (), w))"

definition print :: "string \<Rightarrow> unit io" where
  "print s w = (Inr (), w\<lparr>stdout := stdout w @ [s]\<rparr>)"

text \<open>
  \<^verbatim>\<open>os.makedirs(name)\<close> (with \<^verbatim>\<open>exist_ok=False\<close>): split off the last component,
  twice when the name ends in a separator; create the missing head first, ignoring a
  FileExistsError there; then \<^verbatim>\<open>os.mkdir(name)\<close>, unless the last component is
  \<^verbatim>\<open>.\<close> and the head has just been created.
\<close>

definition makedirs_split :: "string \<Rightarrow> string \<times> string" where
  "makedirs_split name =
     (let ht = split_path name in if snd ht = [] then split_path (fst ht) else ht)"

function makedirs :: "string \<Rightarrow> unit io" where
  "makedirs name w =
     (let head = fst (makedirs_split name); tail = snd (makedirs_split name)
      in if head \<noteq> [] \<and> tail \<noteq> [] \<and> \<not> exists_path w head then
           (case makedirs head w of
              (Inl e, w') \<Rightarrow>
                if e = FileExistsError
                then (if tail = ''.'' then (Inr (), w') else mkdir name w')
                else (Inl e, w')
            | (Inr _, w') \<Rightarrow> if tail = ''.'' then (Inr (), w') else mkdir name w')
         else mkdir name w)"
  by pat_completeness auto
termination
proof (relation "measure (\<lambda>(name, w). length name)")
  show "wf (measure (\<lambda>(name, w). length name))"
    by simp
next
  fix name :: string and w :: world and x xa
  assume x: "x = fst (makedirs_split name)" and xa: "xa = snd (makedirs_split name)"
    and c: "x \<noteq> [] \<and> xa \<noteq> [] \<and> \<not> exists_path w x"
  have drop_le: "length (rev (dropWhile P (rev p))) \<le> length p" for P and p :: string
    using length_dropWhile_le [of P "rev p"] by simp
  have fst_le: "length (fst (split_path p)) \<le> length p" for p
  proof -
    have "length (rstrip_sep (rev (dropWhile (\<lambda>c. c \<noteq> sep) (rev p))))
            \<le> length (rev (dropWhile (\<lambda>c. c \<noteq> sep) (rev p)))"
      unfolding rstrip_sep_def by (rule drop_le)
    also have "\<dots> \<le> length p"
      by (rule drop_le)
    finally show ?thesis
      using drop_le [of "\<lambda>c. c \<noteq> sep" p] by (simp add: split_path_def Let_def)
  qed
  have fst_less: "length (fst (split_path p)) < length p" if "snd (split_path p) \<noteq> []" for p
  proof -
    let ?h = "rev (dropWhile (\<lambda>c. c \<noteq> sep) (rev p))"
    let ?t = "rev (takeWhile (\<lambda>c. c \<noteq> sep) (rev p))"
    have "rev p = takeWhile (\<lambda>c. c \<noteq> sep) (rev p) @ dropWhile (\<lambda>c. c \<noteq> sep) (rev p)"
      by simp
    then have "length (rev p) = length ?t + length ?h"
      by (metis length_append length_rev)
    moreover have "?t \<noteq> []"
      using that by (simp add: split_path_def Let_def basename_def)
    ultimately have less: "length ?h < length p"
      by (cases ?t) auto
    have "length (rstrip_sep ?h) \<le> length ?h"
      unfolding rstrip_sep_def by (rule drop_le)
    with less show ?thesis
      by (simp add: split_path_def Let_def)
  qed
  have "length x < length name"
  proof (cases "snd (split_path name) = []")
    case True
    then have "snd (split_path (fst (split_path name))) \<noteq> []"
      using c xa by (simp add: makedirs_split_def Let_def)
    then have "length (fst (split_path (fst (split_path name)))) < length (fst (split_path name))"
      by (rule fst_less)
    with fst_le [of name] True show ?thesis
      by (simp add: x makedirs_split_def Let_def)
  next
    case False
    then show ?thesis
      using fst_less [of name] by (simp add: x makedirs_split_def Let_def)
  qed
  then show "((x, w), name, w) \<in> measure (\<lambda>(name, w). length name)"
    by simp
qed

section \<open>JSON documents and their serialisation\<close>

text \<open>
  The two configuration documents are Python dictionaries of strings, booleans, lists
  and dictionaries; a dictionary keeps its insertion order.
\<close>

datatype json = JString string | JBool bool | JNull | JArray "json list" | JObject "(string \<times> json) list"

abbreviation dquote :: char where
  "dquote \<equiv> CHR 0x22"

abbreviation backslash :: char where
  "backslash \<equiv> CHR 0x5C"

abbreviation newline :: char where
  "newline \<equiv> CHR 0x0A"

definition hexdigit :: "nat \<Rightarrow> char" where
  "hexdigit n = ''0123456789abcdef'' ! (n mod 16)"

text \<open>
  String escaping of \<^verbatim>\<open>json.dump\<close> with \<^verbatim>\<open>ensure_ascii=True\<close> (the default): the
  quote and the backslash are escaped, five control characters have a short form, and
  every other character outside the range from the space to the tilde is written
  \<^verbatim>\<open>\u00xx\<close>. A character is a code point below 256 here.
\<close>

definition escape_char :: "char \<Rightarrow> string" where
  "escape_char c =
     (if c = dquote then [backslash, dquote]
      else if c = backslash then [backslash, backslash]
      else if c = newline then [backslash, CHR ''n'']
      else if c = CHR 0x0D then [backslash, CHR ''r'']
      else if c = CHR 0x09 then [backslash, CHR ''t'']
      else if c = CHR 0x08 then [backslash, CHR ''b'']
      else if c = CHR 0x0C then [backslash, CHR ''f'']
      else if of_char c < (32 :: nat) \<or> (126 :: nat) < of_char c
        then [backslash, CHR ''u'', CHR ''0'', CHR ''0'',
              hexdigit (of_char c div 16), hexdigit (of_char c mod 16)]
      else [c])"

definition quote :: "string \<Rightarrow> string" where
  "quote s = [dquote] @ concat (map escape_char s) @ [dquote]"

definition intercalate :: "string \<Rightarrow> string list \<Rightarrow> string" where
  "intercalate s xs = concat (case xs of [] \<Rightarrow> [] | y # ys \<Rightarrow> y # map (\<lambda>z. s @ z) ys)"

text \<open>A line break followed by the indentation of nesting level \<open>n\<close>, two spaces a level.\<close>

definition indent_nl :: "nat \<Rightarrow> string" where
  "indent_nl n = newline # replicate (2 * n) CHR '' ''"

text \<open>
  \<^verbatim>\<open>json.dumps(v, indent=2)\<close> at nesting level \<open>n\<close>: one item a line, the items
  separated by a comma, a key from its value by a colon and a space; an empty container
  on one line.
\<close>

fun dumps :: "nat \<Rightarrow> json \<Rightarrow> string" where
  "dumps n (JString s) = quote s"
| "dumps n (JBool b) = (if b then ''true'' else ''false'')"
| "dumps n JNull = ''null''"
| "dumps n (JArray xs) =
     (if xs = [] then ''[]''
      else ''['' @ indent_nl (Suc n)
           @ intercalate ('','' @ indent_nl (Suc n)) (map (dumps (Suc n)) xs)
           @ indent_nl n @ '']'')"
| "dumps n (JObject kvs) =
     (if kvs = [] then ''{}''
      else ''{'' @ indent_nl (Suc n)
           @ intercalate ('','' @ indent_nl (Suc n))
               (map (\<lambda>kv. quote (fst kv) @ '': '' @ dumps (Suc n) (snd kv)) kvs)
           @ indent_nl n @ ''}'')"

text \<open>\<^verbatim>\<open>json.dump(data, f, indent=2)\<close>: the serialised text goes to the handle.\<close>

definition json_dump :: "json \<Rightarrow> string list \<Rightarrow> unit io" where
  "json_dump data f = f_write f (dumps 0 data)"

section \<open>The script\<close>

subsection \<open>generate_package_json\<close>

definition package_data :: "string \<Rightarrow> json" where
  "package_data project_path =
     JObject
      [(''name'', JString (basename project_path)),
       (''version'', JString ''1.0.0''),
       (''main'', JString ''index.js''),
       (''scripts'', JObject
          [(''build'', JString ''tsc''),
           (''start'', JString ''node build/index.js''),
           (''build:start'', JString ''npm run build && npm run start'')]),
       (''devDependencies'', JObject [(''typescript'', JString ''latest'')]),
       (''_moduleAliases'', JObject [(''@'', JString ''build'')])]"

definition generate_package_json :: "string \<Rightarrow> unit io" where
  "generate_package_json project_path =
     (let package_json_path = join project_path ''package.json''
      in bind (open_w package_json_path) (\<lambda>f. json_dump (package_data project_path) f))"

subsection \<open>generate_tsconfig_json\<close>

definition tsconfig_data :: json where
  "tsconfig_data =
     JObject
      [(''compilerOptions'', JObject
          [(''target'', JString ''ES2020''),
           (''module'', JString ''commonjs''),
           (''outDir'', JString ''./build''),
           (''rootDir'', JString ''./src''),
           (''strict'', JBool True),
           (''esModuleInterop'', JBool True),
           (''skipLibCheck'', JBool True),
           (''forceConsistentCasingInFileNames'', JBool True),
           (''baseUrl'', JString ''.''),
           (''paths'', JObject
              [(''@/*'', JArray [JString ''src/*'']),
               (''!/*'', JArray [JString ''./*''])])]),
       (''include'', JArray [JString ''src/**/*.ts'']),
       (''exclude'', JArray [JString ''node_modules''])]"

definition generate_tsconfig_json :: "string \<Rightarrow> unit io" where
  "generate_tsconfig_json project_path =
     (let tsconfig_json_path = join project_path ''tsconfig.json''
      in bind (open_w tsconfig_json_path) (\<lambda>f. json_dump tsconfig_data f))"

subsection \<open>ensure_src_index_ts\<close>

definition index_line1 :: string where
  "index_line1 = ''import { hello } from '' @ [dquote] @ ''./module'' @ [dquote] @ '';'' @ [newline, newline]"

definition index_line2 :: string where
  "index_line2 = ''hello();'' @ [newline]"

definition module_line1 :: string where
  "module_line1 = ''export function hello() {'' @ [newline]"

definition module_line2 :: string where
  "module_line2 =
     ''  console.log('' @ [dquote] @ ''Hello from a separate module!'' @ [dquote] @ '');'' @ [newline]"

definition module_line3 :: string where
  "module_line3 = ''}'' @ [newline]"

definition ensure_src_index_ts :: "string \<Rightarrow> unit io" where
  "ensure_src_index_ts project_path =
     (let src_path = join project_path ''src'';
          index_path = join src_path ''index.ts''
      in bind (\<lambda>w. if \<not> exists_path w src_path then makedirs src_path w else return () w)
        (\<lambda>_. bind (\<lambda>w. if \<not> isfile w index_path
                         then bind (open_w index_path)
                                (\<lambda>f. bind (f_write f index_line1) (\<lambda>_. f_write f index_line2)) w
                         else return () w)
        (\<lambda>_. let module_path = join src_path ''module.ts''
              in (\<lambda>w. if \<not> isfile w module_path
                       then bind (open_w module_path)
                              (\<lambda>f. bind (f_write f module_line1)
                                (\<lambda>_. bind (f_write f module_line2)
                                (\<lambda>_. f_write f module_line3))) w
                       else return () w))))"

subsection \<open>main\<close>

text \<open>
  \<^verbatim>\<open>os.getcwd()\<close>: the absolute path of the working directory. The call raises
  FileNotFoundError when that directory is no longer there (it has been removed since
  the process entered it).
\<close>

definition getcwd :: "string io" where
  "getcwd w =
     (if isabs (cwd w) \<and> isdir w (cwd w) then (Inr (cwd w), w) else (Inl FileNotFoundError, w))"

text \<open>
  The first statement of \<^verbatim>\<open>main\<close>: the project path from \<^verbatim>\<open>sys.argv\<close> (whose
  element 0 is the script's name) and the working directory.
\<close>

definition project_path_of :: "string list \<Rightarrow> string io" where
  "project_path_of argv =
     (if length argv > 1 then
        (let project_name = argv ! 1
         in if isabs project_name then return project_name
            else bind getcwd (\<lambda>c. return (join c project_name)))
      else getcwd)"

definition next_steps :: "string list" where
  "next_steps =
     [[newline] @ ''Next steps:'',
      ''  1. cd into your project directory.'',
      ''  2. Run `npm install` to install local dev dependencies (TypeScript).'',
      ''  3. Run `npm run build` to compile TypeScript => JavaScript in build/.'',
      ''  4. Run `npm run start` to execute the compiled JS from build/.'',
      [newline] @ ''Now your ESM imports in the compiled code will have ''
        @ [CHR 0x27] @ ''.js'' @ [CHR 0x27] @ '' appended automatically!'']"

fun print_all :: "string list \<Rightarrow> unit io" where
  "print_all [] = return ()"
| "print_all (l # ls) = bind (print l) (\<lambda>_. print_all ls)"

definition main :: "string list \<Rightarrow> unit io" where
  "main argv =
     bind (project_path_of argv)
       (\<lambda>project_path.
     bind (\<lambda>w. if \<not> exists_path w project_path then makedirs project_path w else return () w)
       (\<lambda>_.
     bind (print (''Initializing TypeScript project in: '' @ project_path))
       (\<lambda>_.
     bind (generate_package_json project_path)
       (\<lambda>_.
     bind (generate_tsconfig_json project_path)
       (\<lambda>_.
     bind (ensure_src_index_ts project_path)
       (\<lambda>_.
     bind (print ''Success! The following files have been created/updated:'')
       (\<lambda>_.
     bind (print (''  - '' @ join project_path ''package.json''))
       (\<lambda>_.
     bind (print (''  - '' @ join project_path ''tsconfig.json''))
       (\<lambda>_.
     bind (print (''  - '' @ join project_path ''src/index.ts''))
       (\<lambda>_. print_all next_steps))))))))))"

section \<open>Reading the documents back\<close>

text \<open>
  What it means for a written file to parse as JSON is fixed by a reader for the
  fragment of JSON the script emits (strings, the three literals, arrays, objects):
  a scanner that is a fold of a transition function over the text, and a recursive
  descent parser over the tokens. The parser's fuel bounds the nesting and the number
  of items, and the number of tokens is enough of it.
\<close>

datatype token = TLBrace | TRBrace | TLBrack | TRBrack | TColon | TComma | TStr string | TWord string

datatype lexmode = Plain | Word string | InStr string | Esc string | Uni string "nat list"

definition is_letter :: "char \<Rightarrow> bool" where
  "is_letter c = ((97 :: nat) \<le> of_char c \<and> of_char c \<le> (122 :: nat))"

definition unhex :: "char \<Rightarrow> nat option" where
  "unhex c =
     (let n = (of_char c :: nat)
      in if 48 \<le> n \<and> n \<le> 57 then Some (n - 48)
         else if 97 \<le> n \<and> n \<le> 102 then Some (n - 87)
         else if 65 \<le> n \<and> n \<le> 70 then Some (n - 55)
         else None)"

definition plain_step :: "char \<Rightarrow> token list \<Rightarrow> (lexmode \<times> token list) option" where
  "plain_step c ts =
     (if c = CHR '' '' \<or> c = newline \<or> c = CHR 0x0D \<or> c = CHR 0x09 then Some (Plain, ts)
      else if c = CHR ''{'' then Some (Plain, ts @ [TLBrace])
      else if c = CHR ''}'' then Some (Plain, ts @ [TRBrace])
      else if c = CHR ''['' then Some (Plain, ts @ [TLBrack])
      else if c = CHR '']'' then Some (Plain, ts @ [TRBrack])
      else if c = CHR '':'' then Some (Plain, ts @ [TColon])
      else if c = CHR '','' then Some (Plain, ts @ [TComma])
      else if c = dquote then Some (InStr [], ts)
      else if is_letter c then Some (Word [c], ts)
      else None)"

definition unescape :: "char \<Rightarrow> char option" where
  "unescape c =
     (if c = dquote \<or> c = backslash \<or> c = sep then Some c
      else if c = CHR ''n'' then Some newline
      else if c = CHR ''r'' then Some (CHR 0x0D)
      else if c = CHR ''t'' then Some (CHR 0x09)
      else if c = CHR ''b'' then Some (CHR 0x08)
      else if c = CHR ''f'' then Some (CHR 0x0C)
      else None)"

fun lex_step :: "char \<Rightarrow> (lexmode \<times> token list) option \<Rightarrow> (lexmode \<times> token list) option" where
  "lex_step c None = None"
| "lex_step c (Some (Plain, ts)) = plain_step c ts"
| "lex_step c (Some (Word a, ts)) =
     (if is_letter c then Some (Word (a @ [c]), ts) else plain_step c (ts @ [TWord a]))"
| "lex_step c (Some (InStr a, ts)) =
     (if c = dquote then Some (Plain, ts @ [TStr a])
      else if c = backslash then Some (Esc a, ts)
      else if of_char c < (32 :: nat) then None
      else Some (InStr (a @ [c]), ts))"
| "lex_step c (Some (Esc a, ts)) =
     (if c = CHR ''u'' then Some (Uni a [], ts)
      else (case unescape c of None \<Rightarrow> None | Some d \<Rightarrow> Some (InStr (a @ [d]), ts)))"
| "lex_step c (Some (Uni a ds, ts)) =
     (case unhex c of
        None \<Rightarrow> None
      | Some d \<Rightarrow>
          if length ds < 3 then Some (Uni a (ds @ [d]), ts)
          else (let v = fold (\<lambda>x acc. 16 * acc + x) (ds @ [d]) 0
                in if v < 256 then Some (InStr (a @ [char_of v]), ts) else None))"

definition tokenize :: "string \<Rightarrow> token list option" where
  "tokenize s =
     (case fold lex_step s (Some (Plain, [])) of
        Some (Plain, ts) \<Rightarrow> Some ts
      | Some (Word a, ts) \<Rightarrow> Some (ts @ [TWord a])
      | _ \<Rightarrow> None)"

fun parse_value :: "nat \<Rightarrow> token list \<Rightarrow> (json \<times> token list) option"
  and parse_elems :: "nat \<Rightarrow> token list \<Rightarrow> (json list \<times> token list) option"
  and parse_members :: "nat \<Rightarrow> token list \<Rightarrow> ((string \<times> json) list \<times> token list) option"
where
  "parse_value 0 ts = None"
| "parse_value (Suc n) [] = None"
| "parse_value (Suc n) (t # ts) =
     (case t of
        TStr s \<Rightarrow> Some (JString s, ts)
      | TWord a \<Rightarrow>
          if a = ''true'' then Some (JBool True, ts)
          else if a = ''false'' then Some (JBool False, ts)
          else if a = ''null'' then Some (JNull, ts)
          else None
      | TLBrack \<Rightarrow>
          (case ts of
             TRBrack # r \<Rightarrow> Some (JArray [], r)
           | _ \<Rightarrow> (case parse_elems n ts of None \<Rightarrow> None | Some (xs, r) \<Rightarrow> Some (JArray xs, r)))
      | TLBrace \<Rightarrow>
          (case ts of
             TRBrace # r \<Rightarrow> Some (JObject [], r)
           | _ \<Rightarrow> (case parse_members n ts of None \<Rightarrow> None | Some (kvs, r) \<Rightarrow> Some (JObject kvs, r)))
      | _ \<Rightarrow> None)"
| "parse_elems 0 ts = None"
| "parse_elems (Suc n) ts =
     (case parse_value n ts of
        None \<Rightarrow> None
      | Some (v, r) \<Rightarrow>
          (case r of
             TComma # r1 \<Rightarrow>
               (case parse_elems n r1 of None \<Rightarrow> None | Some (vs, r2) \<Rightarrow> Some (v # vs, r2))
           | TRBrack # r1 \<Rightarrow> Some ([v], r1)
           | _ \<Rightarrow> None))"
| "parse_members 0 ts = None"
| "parse_members (Suc n) ts =
     (case ts of
        TStr k # TColon # r \<Rightarrow>
          (case parse_value n r of
             None \<Rightarrow> None
           | Some (v, r1) \<Rightarrow>
               (case r1 of
                  TComma # r2 \<Rightarrow>
                    (case parse_members n r2 of
                       None \<Rightarrow> None
                     | Some (kvs, r3) \<Rightarrow> Some ((k, v) # kvs, r3))
                | TRBrace # r2 \<Rightarrow> Some ([(k, v)], r2)
                | _ \<Rightarrow> None))
      | _ \<Rightarrow> None)"

definition json_loads :: "string \<Rightarrow> json option" where
  "json_loads s =
     (case tokenize s of
        None \<Rightarrow> None
      | Some ts \<Rightarrow> (case parse_value (Suc (length ts)) ts of Some (v, []) \<Rightarrow> Some v | _ \<Rightarrow> None))"

text \<open>The value of a key of an object, and a value reached through nested keys.\<close>

fun field :: "string \<Rightarrow> json \<Rightarrow> json option" where
  "field k (JObject kvs) = map_of kvs k"
| "field k _ = None"

fun at_path :: "string list \<Rightarrow> json \<Rightarrow> json option" where
  "at_path [] v = Some v"
| "at_path (k # ks) v = (case field k v of None \<Rightarrow> None | Some v' \<Rightarrow> at_path ks v')"

fun keys :: "json \<Rightarrow> string list" where
  "keys (JObject kvs) = map fst kvs"
| "keys _ = []"

text \<open>
  The final path segment of a directory's path, in the words of the specification: the
  last component that names something, that is, the last non-empty one.
\<close>

definition final_segment :: "string \<Rightarrow> string" where
  "final_segment p = (case components p of [] \<Rightarrow> [] | c # cs \<Rightarrow> last (c # cs))"

section \<open>Path resolution and the command line\<close>

text \<open>
  C4. The project path is the working directory when the command line has no
  argument, the first argument itself when that is absolute, and otherwise the first
  argument joined to the working directory: appended to it after a separator (after
  none when the working directory already ends in one, as the root does). The two
  cases that ask for the working directory raise FileNotFoundError when it is gone,
  and nothing else; resolving the path changes nothing in the world.
\<close>

theorem project_path_resolution:
  "(length argv \<le> 1 \<longrightarrow>
      project_path_of argv w =
        (if isabs (cwd w) \<and> isdir w (cwd w) then (Inr (cwd w), w) else (Inl FileNotFoundError, w))) \<and>
   (isabs a \<longrightarrow> project_path_of (prog # a # rest) w = (Inr a, w)) \<and>
   (\<not> isabs a \<longrightarrow>
      project_path_of (prog # a # rest) w =
        (if isabs (cwd w) \<and> isdir w (cwd w) then (Inr (join (cwd w) a), w)
         else (Inl FileNotFoundError, w)) \<and>
      join (cwd w) a =
        (if cwd w = [] \<or> last (cwd w) = sep then cwd w @ a else cwd w @ ''/'' @ a))"
  by (simp add: project_path_of_def getcwd_def join_def Let_def bind_def return_def)

theorem project_path_resolution_witness:
  "project_path_of [''main.py'']
     \<lparr>files = [[''home''] \<mapsto> Dir, [''home'', ''u''] \<mapsto> Dir], cwd = ''/home/u'', stdout = []\<rparr>
     = (Inr ''/home/u'',
        \<lparr>files = [[''home''] \<mapsto> Dir, [''home'', ''u''] \<mapsto> Dir], cwd = ''/home/u'', stdout = []\<rparr>) \<and>
   isabs ''/tmp/app'' \<and>
   project_path_of [''main.py'', ''/tmp/app'', ''x'']
     \<lparr>files = [[''home''] \<mapsto> Dir, [''home'', ''u''] \<mapsto> Dir], cwd = ''/home/u'', stdout = []\<rparr>
     = (Inr ''/tmp/app'',
        \<lparr>files = [[''home''] \<mapsto> Dir, [''home'', ''u''] \<mapsto> Dir], cwd = ''/home/u'', stdout = []\<rparr>) \<and>
   \<not> isabs ''foo'' \<and>
   project_path_of [''main.py'', ''foo'']
     \<lparr>files = [[''home''] \<mapsto> Dir, [''home'', ''u''] \<mapsto> Dir], cwd = ''/home/u'', stdout = []\<rparr>
     = (Inr ''/home/u/foo'',
        \<lparr>files = [[''home''] \<mapsto> Dir, [''home'', ''u''] \<mapsto> Dir], cwd = ''/home/u'', stdout = []\<rparr>) \<and>
   project_path_of [''main.py'', ''foo''] \<lparr>files = Map.empty, cwd = ''/home/u'', stdout = []\<rparr>
     = (Inl FileNotFoundError, \<lparr>files = Map.empty, cwd = ''/home/u'', stdout = []\<rparr>)"
proof -
  let ?w = "\<lparr>files = [[''home''] \<mapsto> Dir, [''home'', ''u''] \<mapsto> Dir], cwd = ''/home/u'', stdout = []\<rparr>"
  let ?v = "\<lparr>files = Map.empty, cwd = ''/home/u'', stdout = []\<rparr>"
  have d: "isdir ?w ''/home/u''" and n: "\<not> isdir ?v ''/home/u''"
    by code_simp+
  show ?thesis
    using project_path_resolution [of "[''main.py'']" ?w "''/tmp/app''" "''main.py''" "[''x'']"]
      project_path_resolution [of "[''main.py'']" ?w "''foo''" "''main.py''" "[]"]
      project_path_resolution [of "[''main.py'']" ?v "''foo''" "''main.py''" "[]"] d n
    by (simp add: isabs_def join_def)
qed

text \<open>
  C10. Only the first argument is read: two command lines with the same first
  argument, run in the same world (file system, working directory, output so far), end
  with the same result in the same world, whatever else they hold.
\<close>

theorem extra_arguments_ignored:
  "main (prog # a # rest) w = main (prog' # a # rest') w"
  by (simp add: main_def project_path_of_def)

theorem extra_arguments_ignored_witness:
  "main [''main.py'', ''app'', ''--force'', ''x''] \<lparr>files = Map.empty, cwd = ''/'', stdout = []\<rparr> =
   main [''python3'', ''app''] \<lparr>files = Map.empty, cwd = ''/'', stdout = []\<rparr>"
  using extra_arguments_ignored [of "''main.py''" "''app''" "[''--force'', ''x'']"
      "\<lparr>files = Map.empty, cwd = ''/'', stdout = []\<rparr>" "''python3''" "[]"]
  by simp

end
